theory Spec2Isabelle
  imports Main "HOL-Library.Word" "HOL-Library.FSet" "HOL-Library.Finite_Map"
begin

section \<open>Base types\<close>

text \<open>
  \<open>TaskID_t\<close> and \<open>EquivClass_t\<close> are \<open>uint64_t\<close>; \<open>ResourceID_t\<close> and \<open>JobID_t\<close> are
  boost UUIDs, sixteen bytes each. \<open>size_t\<close> is taken as 64 bits wide.
\<close>

type_synonym uint64_t = "64 word"
type_synonym int64_t = "64 word"
type_synonym uint32_t = "32 word"
type_synonym int32_t = "32 word"
type_synonym size_t = "64 word"
type_synonym TaskID_t = uint64_t
type_synonym EquivClass_t = uint64_t
type_synonym ResourceID_t = "128 word"
type_synonym JobID_t = "128 word"

text \<open>
  Every way the process can stop without returning: \<open>LOG(FATAL)\<close>, a failed
  \<open>CHECK_NOTNULL\<close> (which names the expression it checked), and a member access through a
  null pointer.
\<close>

datatype error =
    LOG_FATAL
  | CHECK_NOTNULL_failed string
  | Null_dereference

section \<open>Descriptors\<close>

text \<open>
  The descriptors are protocol-buffer messages declared outside the sources at hand. Only
  the fields that the code reads or writes are kept. Of the state enumerations the code
  names \<open>TaskDescriptor::ASSIGNED\<close>, \<open>TaskDescriptor::RUNNING\<close> and
  \<open>JobDescriptor::RUNNING\<close>; every other enumerator is kept under one constructor that
  carries its number.
\<close>

datatype TaskState = TASK_ASSIGNED | TASK_RUNNING | TASK_OTHER nat

datatype JobState = JOB_RUNNING | JOB_OTHER nat

record TaskDescriptor =
  td_uid :: TaskID_t
  td_job_id :: string
  td_state :: TaskState

record JobDescriptor =
  jd_uuid :: string
  jd_state :: JobState

record ResourceDescriptor =
  rd_uuid :: string

record ResourceStatus =
  descriptor :: ResourceDescriptor

datatype ResourceTopologyNodeDescriptor =
  RTND ResourceDescriptor "ResourceTopologyNodeDescriptor list"

section \<open>Flow graph arcs and nodes\<close>

text \<open>
  Modelled from the spec: \<open>FlowGraphArc\<close> and \<open>FlowGraphArcType\<close> (the header
  \<open>flow_graph_arc.h\<close> is missing). An arc connects \<open>src\<close> to \<open>dst\<close>, is typed, and has a
  lower and an upper capacity bound and a signed cost.
\<close>

datatype FlowGraphArcType =
    TASK_TO_EQUIV | TASK_TO_RES | RES_TO_RES | TASK_TO_UNSCHED
  | UNSCHED_AGG_TO_SINK | RES_TO_SINK | RUNNING_ARC | OTHER

record FlowGraphArc =
  arc_src :: uint64_t
  arc_dst :: uint64_t
  arc_cap_lower_bound :: uint64_t
  arc_cap_upper_bound :: uint64_t
  arc_cost :: int64_t
  arc_type :: FlowGraphArcType

datatype FlowNodeType =
    ROOT_TASK | SCHEDULED_TASK | UNSCHEDULED_TASK | JOB_AGGREGATOR | SINK
  | EQUIVALENCE_CLASS | COORDINATOR | MACHINE | NUMA_NODE | SOCKET | CACHE | CORE | PU

text \<open>
  \<open>struct FlowGraphNode\<close>. The descriptor pointers \<open>rd_ptr_\<close> and \<open>td_ptr_\<close> are modelled
  by the value they point to, \<open>None\<close> for the null pointer. (A name cannot end in an
  underscore here, so the members carry the prefix \<open>fgn_\<close> instead.)
\<close>

record FlowGraphNode =
  fgn_id :: uint64_t
  fgn_excess :: int64_t
  fgn_type :: FlowNodeType
  fgn_job_id :: JobID_t
  fgn_resource_id :: ResourceID_t
  fgn_rd_ptr :: "ResourceDescriptor option"
  fgn_td_ptr :: "TaskDescriptor option"
  fgn_ec_id :: EquivClass_t
  fgn_comment :: string
  fgn_outgoing_arc_map :: "uint64_t \<rightharpoonup> FlowGraphArc"
  fgn_incoming_arc_map :: "uint64_t \<rightharpoonup> FlowGraphArc"
  fgn_visited :: uint32_t

definition IsEquivalenceClassNode :: "FlowGraphNode \<Rightarrow> bool" where
  "IsEquivalenceClassNode n = (fgn_type n = EQUIVALENCE_CLASS)"

definition IsResourceNode :: "FlowGraphNode \<Rightarrow> bool" where
  "IsResourceNode n =
     (fgn_type n = COORDINATOR \<or>
      fgn_type n = MACHINE \<or>
      fgn_type n = NUMA_NODE \<or>
      fgn_type n = SOCKET \<or>
      fgn_type n = CACHE \<or>
      fgn_type n = CORE \<or>
      fgn_type n = PU)"

definition IsTaskNode :: "FlowGraphNode \<Rightarrow> bool" where
  "IsTaskNode n =
     (fgn_type n = ROOT_TASK \<or>
      fgn_type n = SCHEDULED_TASK \<or>
      fgn_type n = UNSCHEDULED_TASK)"

definition IsTaskAssignedOrRunning :: "FlowGraphNode \<Rightarrow> error + bool" where
  "IsTaskAssignedOrRunning n =
     (case fgn_td_ptr n of
        None \<Rightarrow> Inl (CHECK_NOTNULL_failed ''td_ptr_'')
      | Some td \<Rightarrow> Inr (td_state td = TASK_ASSIGNED \<or> td_state td = TASK_RUNNING))"

section \<open>Change records\<close>

text \<open>\<open>class DIMACSChangeArc\<close>: the seven members the header declares.\<close>

record DIMACSChangeArc =
  chg_src :: uint64_t
  chg_dst :: uint64_t
  chg_cap_lower_bound :: uint64_t
  chg_cap_upper_bound :: uint64_t
  chg_cost :: int64_t
  chg_type :: FlowGraphArcType
  chg_old_cost :: int64_t

text \<open>
  Modelled from the spec: the constructor \<open>DIMACSChangeArc(arc, old_cost)\<close>, of which
  the header has the declaration only. The record carries
  \<open>(src, dst, cap_lower, cap_upper, new_cost, arc_type, old_cost)\<close>.
\<close>

definition new_DIMACSChangeArc :: "FlowGraphArc \<Rightarrow> int64_t \<Rightarrow> DIMACSChangeArc" where
  "new_DIMACSChangeArc arc old_cost =
     \<lparr>chg_src = arc_src arc,
      chg_dst = arc_dst arc,
      chg_cap_lower_bound = arc_cap_lower_bound arc,
      chg_cap_upper_bound = arc_cap_upper_bound arc,
      chg_cost = arc_cost arc,
      chg_type = arc_type arc,
      chg_old_cost = old_cost\<rparr>"

section \<open>Task identifiers of the trace simulator\<close>

record TaskIdentifier =
  job_id :: uint64_t
  task_index :: uint64_t

text \<open>\<open>TaskIdentifier::operator==\<close>.\<close>

definition TaskIdentifier_eq :: "TaskIdentifier \<Rightarrow> TaskIdentifier \<Rightarrow> bool" where
  "TaskIdentifier_eq this other =
     (job_id this = job_id other \<and> task_index this = task_index other)"

text \<open>
  \<open>TaskIdentifierHasher::operator()\<close>. The standard library's \<open>hash<uint64_t>\<close> is a
  parameter: the language fixes only that it is a function of its argument. The
  multiplication and the addition are those of \<open>size_t\<close> and wrap around.
\<close>

definition TaskIdentifierHasher :: "(uint64_t \<Rightarrow> size_t) \<Rightarrow> TaskIdentifier \<Rightarrow> size_t" where
  "TaskIdentifierHasher hash key = hash (job_id key) * 17 + hash (task_index key)"

section \<open>Scheduling deltas and cost models\<close>

text \<open>
  Modelled from the spec: the \<open>SchedulingDelta\<close> message, of shape
  \<open>{ type: PLACE|NOOP|PREEMPT|MIGRATE, task_id, resource_id, actioned: bool }\<close>; the
  resource is named by the text form of its UUID.
\<close>

datatype ChangeType = NOOP | PLACE | PREEMPT | MIGRATE

record SchedulingDelta =
  sd_type :: ChangeType
  sd_task_id :: uint64_t
  sd_resource_id :: string
  sd_actioned :: bool

text \<open>
  The enumeration \<open>FlowSchedulingCostModelType\<close> is declared in \<open>cost_models.h\<close>, which
  is missing; its numbering is the one that the help text of the flag
  \<open>flow_scheduling_cost_model\<close> gives:
  \<open>0 = TRIVIAL, 1 = RANDOM, 2 = SJF, 3 = QUINCY, 4 = WHARE, 5 = COCO\<close>.
\<close>

datatype FlowSchedulingCostModelType =
    COST_MODEL_TRIVIAL | COST_MODEL_RANDOM | COST_MODEL_SJF
  | COST_MODEL_QUINCY | COST_MODEL_WHARE | COST_MODEL_COCO

fun cost_model_number :: "FlowSchedulingCostModelType \<Rightarrow> int32_t" where
  "cost_model_number COST_MODEL_TRIVIAL = 0"
| "cost_model_number COST_MODEL_RANDOM = 1"
| "cost_model_number COST_MODEL_SJF = 2"
| "cost_model_number COST_MODEL_QUINCY = 3"
| "cost_model_number COST_MODEL_WHARE = 4"
| "cost_model_number COST_MODEL_COCO = 5"

text \<open>
  The cost model objects that the constructor of the scheduler creates. (The arguments
  that \<open>SJFCostModel\<close> and \<open>QuincyCostModel\<close> receive are references to the scheduler's
  own maps and are not repeated here.)
\<close>

datatype CostModel = TrivialCostModel | RandomCostModel | SJFCostModel | QuincyCostModel

section \<open>The flow graph, as far as the scheduler looks into it\<close>

text \<open>
  Modelled from the spec: \<open>FlowGraph\<close> with \<open>node(id)\<close> and \<open>num_nodes()\<close> (the class is
  declared in \<open>flow_graph.h\<close>, which is missing). The graph is built around one cost
  model and keeps its nodes in a finite map keyed by node id; \<open>Node\<close> answers the null
  pointer for an id that is not there. The number of nodes is a count of entries of a
  table in memory, far below \<open>2 ^ 64\<close>, and is kept as a natural number.
\<close>

record FlowGraph =
  fg_cost_model :: CostModel
  fg_node_map :: "(uint64_t, FlowGraphNode) fmap"

definition Node :: "FlowGraph \<Rightarrow> uint64_t \<Rightarrow> FlowGraphNode option" where
  "Node g ident = fmlookup (fg_node_map g) ident"

definition NumNodes :: "FlowGraph \<Rightarrow> nat" where
  "NumNodes g = fcard (fmdom (fg_node_map g))"

text \<open>The assignment \<open>Node(id)->type_ = t\<close>, for a node that is there.\<close>

definition set_node_type :: "uint64_t \<Rightarrow> FlowNodeType \<Rightarrow> FlowGraph \<Rightarrow> FlowGraph" where
  "set_node_type ident t g =
     (case Node g ident of
        None \<Rightarrow> g
      | Some n \<Rightarrow> g\<lparr>fg_node_map := fmupd ident (n\<lparr>fgn_type := t\<rparr>) (fg_node_map g)\<rparr>)"

section \<open>The scheduler\<close>

text \<open>
  The members of \<open>QuincyScheduler\<close> (its own and those of its base class) that the
  methods below read or write. A map holds the object that the stored pointer leads to;
  a key without entry and a null pointer are both \<open>None\<close>.
\<close>

record sched =
  flow_graph :: FlowGraph
  job_map :: "JobID_t \<rightharpoonup> JobDescriptor"
  resource_map :: "ResourceID_t \<rightharpoonup> ResourceStatus"
  task_map :: "TaskID_t \<rightharpoonup> TaskDescriptor"
  task_bindings :: "TaskID_t \<rightharpoonup> ResourceID_t"

text \<open>
  The calls that leave the file, and the one warning it logs, in the order in which they
  happen.
\<close>

datatype call =
    Called_BindTaskToResource TaskDescriptor ResourceDescriptor
  | Called_UpdateArcsForBoundTask TaskID_t ResourceID_t
  | Called_AddOrUpdateJobNodes JobDescriptor
  | Called_AddResourceTopology ResourceTopologyNodeDescriptor
  | Called_UpdateResourceTopology ResourceTopologyNodeDescriptor
  | Called_Run
  | Logged_WARNING nat

text \<open>
  The functions that \<open>quincy_scheduler.cc\<close> calls and that are defined elsewhere are
  parameters of the model, each acting on the part of the state it is handed:
  the conversions from text to UUID, taken to return for every text;
  \<open>EventDrivenScheduler::BindTaskToResource\<close>, which records the binding and leaves the
  identifiers of the descriptors it is handed as they are; the mutators and the constructor of \<open>FlowGraph\<close>;
  \<open>EventDrivenScheduler::RunnableTasksForJob\<close>; the dispatcher's \<open>Run\<close>, whose multimap
  is given as the list of its pairs in iteration order; and the dispatcher's
  \<open>NodeBindingToSchedulingDelta\<close>, which fills in a fresh delta.
\<close>

record ext =
  ResourceIDFromString :: "string \<Rightarrow> ResourceID_t"
  JobIDFromString :: "string \<Rightarrow> JobID_t"
  BindTaskToResource ::
    "TaskDescriptor \<Rightarrow> ResourceDescriptor \<Rightarrow> (TaskID_t \<rightharpoonup> ResourceID_t) \<Rightarrow> (TaskID_t \<rightharpoonup> ResourceID_t)"
  UpdateArcsForBoundTask :: "TaskID_t \<Rightarrow> ResourceID_t \<Rightarrow> FlowGraph \<Rightarrow> FlowGraph"
  AddOrUpdateJobNodes :: "JobDescriptor \<Rightarrow> FlowGraph \<Rightarrow> FlowGraph"
  AddResourceTopology :: "ResourceTopologyNodeDescriptor \<Rightarrow> FlowGraph \<Rightarrow> FlowGraph"
  FlowGraph_UpdateResourceTopology ::
    "ResourceTopologyNodeDescriptor \<Rightarrow> FlowGraph \<Rightarrow> FlowGraph"
  new_FlowGraph :: "CostModel \<Rightarrow> FlowGraph"
  RunnableTasksForJob :: "JobDescriptor \<Rightarrow> sched \<Rightarrow> TaskID_t fset"
  Run :: "FlowGraph \<Rightarrow> (uint64_t \<times> uint64_t) list"
  NodeBindingToSchedulingDelta ::
    "FlowGraphNode \<Rightarrow> FlowGraphNode \<Rightarrow> (TaskID_t \<rightharpoonup> ResourceID_t) \<Rightarrow> SchedulingDelta"

subsection \<open>\<open>QuincyScheduler::UpdateResourceTopology\<close>\<close>

definition UpdateResourceTopology ::
  "ext \<Rightarrow> ResourceTopologyNodeDescriptor \<Rightarrow> sched \<Rightarrow> sched \<times> call list" where
  "UpdateResourceTopology ex root s =
     (if NumNodes (flow_graph s) = 1
      then (s\<lparr>flow_graph := AddResourceTopology ex root (flow_graph s)\<rparr>,
            [Called_AddResourceTopology root])
      else (s\<lparr>flow_graph := FlowGraph_UpdateResourceTopology ex root (flow_graph s)\<rparr>,
            [Called_UpdateResourceTopology root]))"

subsection \<open>The constructor\<close>

text \<open>
  The \<open>switch\<close> over the flag: four \<open>case\<close> labels, then \<open>default\<close> with \<open>LOG(FATAL)\<close>.
\<close>

definition select_cost_model :: "int32_t \<Rightarrow> error + CostModel" where
  "select_cost_model FLAGS_flow_scheduling_cost_model =
     (if FLAGS_flow_scheduling_cost_model = cost_model_number COST_MODEL_TRIVIAL
        then Inr TrivialCostModel
      else if FLAGS_flow_scheduling_cost_model = cost_model_number COST_MODEL_RANDOM
        then Inr RandomCostModel
      else if FLAGS_flow_scheduling_cost_model = cost_model_number COST_MODEL_SJF
        then Inr SJFCostModel
      else if FLAGS_flow_scheduling_cost_model = cost_model_number COST_MODEL_QUINCY
        then Inr QuincyCostModel
      else Inl LOG_FATAL)"

text \<open>
  The constructor takes the maps it is given, starts without bindings, builds the flow
  graph around the selected cost model and sets up the initial topology. The dispatcher
  that it creates last is the parameter \<open>Run\<close> of the model.
\<close>

definition QuincyScheduler ::
  "ext \<Rightarrow> int32_t \<Rightarrow> (JobID_t \<rightharpoonup> JobDescriptor) \<Rightarrow> (ResourceID_t \<rightharpoonup> ResourceStatus) \<Rightarrow>
   ResourceTopologyNodeDescriptor \<Rightarrow> (TaskID_t \<rightharpoonup> TaskDescriptor) \<Rightarrow>
   error + (sched \<times> call list)" where
  "QuincyScheduler ex FLAGS_flow_scheduling_cost_model jm rm resource_topology tm =
     (case select_cost_model FLAGS_flow_scheduling_cost_model of
        Inl e \<Rightarrow> Inl e
      | Inr cm \<Rightarrow>
          Inr (UpdateResourceTopology ex resource_topology
                 \<lparr>flow_graph = new_FlowGraph ex cm,
                  job_map = jm,
                  resource_map = rm,
                  task_map = tm,
                  task_bindings = Map.empty\<rparr>))"

subsection \<open>\<open>QuincyScheduler::ApplySchedulingDeltas\<close>\<close>

text \<open>
  One pass of the loop body over the delta \<open>it\<close>. The loop carries the counter
  \<open>num_scheduled\<close>, the scheduler and the calls made so far; the body gives back the
  delta as it leaves it. The two lookups come first, then the two checks, in the order
  of the source. The job descriptor is used without a check.
\<close>

definition ApplySchedulingDeltas_body ::
  "ext \<Rightarrow> SchedulingDelta \<Rightarrow> uint64_t \<times> sched \<times> call list \<Rightarrow>
   error + (SchedulingDelta \<times> uint64_t \<times> sched \<times> call list)" where
  "ApplySchedulingDeltas_body ex it acc =
     (case acc of (num_scheduled, s, calls) \<Rightarrow>
      let task_id = sd_task_id it;
          res_id = ResourceIDFromString ex (sd_resource_id it)
      in if sd_type it = PLACE then
           (case task_map s task_id of
              None \<Rightarrow> Inl (CHECK_NOTNULL_failed ''td'')
            | Some td \<Rightarrow>
                (case resource_map s res_id of
                   None \<Rightarrow> Inl (CHECK_NOTNULL_failed ''rs'')
                 | Some rs \<Rightarrow>
                     let s1 = s\<lparr>task_bindings :=
                                 BindTaskToResource ex td (descriptor rs) (task_bindings s)\<rparr>;
                         s2 = s1\<lparr>flow_graph :=
                                 UpdateArcsForBoundTask ex task_id res_id (flow_graph s1)\<rparr>;
                         jid = JobIDFromString ex (td_job_id td)
                     in (case job_map s2 jid of
                           None \<Rightarrow> Inl Null_dereference
                         | Some jd \<Rightarrow>
                             let s3 = (if jd_state jd \<noteq> JOB_RUNNING
                                       then s2\<lparr>job_map :=
                                              (job_map s2)(jid \<mapsto> jd\<lparr>jd_state := JOB_RUNNING\<rparr>)\<rparr>
                                       else s2)
                             in Inr (it\<lparr>sd_actioned := True\<rparr>,
                                     num_scheduled + 1,
                                     s3,
                                     calls @ [Called_BindTaskToResource td (descriptor rs),
                                              Called_UpdateArcsForBoundTask task_id res_id]))))
         else Inr (it, num_scheduled, s, calls))"

fun ApplySchedulingDeltas_loop ::
  "ext \<Rightarrow> SchedulingDelta list \<Rightarrow> uint64_t \<times> sched \<times> call list \<Rightarrow>
   error + (SchedulingDelta list \<times> uint64_t \<times> sched \<times> call list)" where
  "ApplySchedulingDeltas_loop ex [] acc = Inr ([], acc)"
| "ApplySchedulingDeltas_loop ex (it # rest) acc =
     (case ApplySchedulingDeltas_body ex it acc of
        Inl e \<Rightarrow> Inl e
      | Inr (it', acc') \<Rightarrow>
          (case ApplySchedulingDeltas_loop ex rest acc' of
             Inl e \<Rightarrow> Inl e
           | Inr (rest', acc'') \<Rightarrow> Inr (it' # rest', acc'')))"

text \<open>
  The method: the counter starts at 0. Beside the counter it returns the deltas (the
  caller reads their \<open>actioned\<close> marks through its own pointers), the scheduler and the
  calls made.
\<close>

definition ApplySchedulingDeltas ::
  "ext \<Rightarrow> SchedulingDelta list \<Rightarrow> sched \<Rightarrow>
   error + (uint64_t \<times> SchedulingDelta list \<times> sched \<times> call list)" where
  "ApplySchedulingDeltas ex deltas s =
     (case ApplySchedulingDeltas_loop ex deltas (0, s, []) of
        Inl e \<Rightarrow> Inl e
      | Inr (deltas', num_scheduled, s', calls) \<Rightarrow> Inr (num_scheduled, deltas', s', calls))"

subsection \<open>\<open>QuincyScheduler::RunSchedulingIteration\<close>\<close>

text \<open>
  The first loop, over the task mappings: both nodes are dereferenced, the dispatcher
  turns the pair into a delta, a \<open>NOOP\<close> delta is skipped (\<open>continue\<close>), and otherwise
  the task's node is marked as scheduled and the delta is remembered.
\<close>

fun collect_deltas ::
  "ext \<Rightarrow> (uint64_t \<times> uint64_t) list \<Rightarrow> sched \<Rightarrow> SchedulingDelta list \<Rightarrow>
   error + (sched \<times> SchedulingDelta list)" where
  "collect_deltas ex [] s deltas = Inr (s, deltas)"
| "collect_deltas ex (it # rest) s deltas =
     (case Node (flow_graph s) (fst it) of
        None \<Rightarrow> Inl Null_dereference
      | Some task_node \<Rightarrow>
          (case Node (flow_graph s) (snd it) of
             None \<Rightarrow> Inl Null_dereference
           | Some res_node \<Rightarrow>
               let delta = NodeBindingToSchedulingDelta ex task_node res_node (task_bindings s)
               in if sd_type delta = NOOP
                  then collect_deltas ex rest s deltas
                  else collect_deltas ex rest
                         (s\<lparr>flow_graph := set_node_type (fst it) SCHEDULED_TASK (flow_graph s)\<rparr>)
                         (deltas @ [delta])))"

text \<open>
  The method. After the deltas are applied, the second loop erases the actioned ones
  from the local vector; a warning with the number of those left is logged if there are
  any, and the count that \<open>ApplySchedulingDeltas\<close> gave is returned.
\<close>

definition RunSchedulingIteration ::
  "ext \<Rightarrow> sched \<Rightarrow> error + (uint64_t \<times> sched \<times> call list)" where
  "RunSchedulingIteration ex s =
     (let task_mappings = Run ex (flow_graph s)
      in case collect_deltas ex task_mappings s [] of
           Inl e \<Rightarrow> Inl e
         | Inr (s1, deltas) \<Rightarrow>
             (case ApplySchedulingDeltas ex deltas s1 of
                Inl e \<Rightarrow> Inl e
              | Inr (num_scheduled, deltas', s2, calls) \<Rightarrow>
                  let remaining = filter (\<lambda>d. \<not> sd_actioned d) deltas'
                  in Inr (num_scheduled, s2,
                          Called_Run # calls @
                          (if length remaining > 0
                           then [Logged_WARNING (length remaining)] else []))))"

subsection \<open>\<open>QuincyScheduler::ScheduleJob\<close>\<close>

text \<open>
  The lock guard serialises callers and has no effect on what one call computes.
\<close>

definition ScheduleJob ::
  "ext \<Rightarrow> JobDescriptor \<Rightarrow> sched \<Rightarrow> error + (uint64_t \<times> sched \<times> call list)" where
  "ScheduleJob ex job_desc s =
     (let runnable_tasks = RunnableTasksForJob ex job_desc s
      in if fcard runnable_tasks > 0 then
           (case RunSchedulingIteration ex
                   (s\<lparr>flow_graph := AddOrUpdateJobNodes ex job_desc (flow_graph s)\<rparr>) of
              Inl e \<Rightarrow> Inl e
            | Inr (newly_scheduled, s', calls) \<Rightarrow>
                Inr (newly_scheduled, s', Called_AddOrUpdateJobNodes job_desc # calls))
         else Inr (0, s, []))"

section \<open>Notions for stating the properties\<close>

text \<open>
  The three lookups that \<open>ApplySchedulingDeltas\<close> makes for a \<open>PLACE\<close> delta all find
  their entry: the task, the resource, and the job that the task names.
\<close>

definition descriptors_found :: "ext \<Rightarrow> sched \<Rightarrow> SchedulingDelta \<Rightarrow> bool" where
  "descriptors_found ex s d =
     (case task_map s (sd_task_id d) of
        None \<Rightarrow> False
      | Some td \<Rightarrow>
          resource_map s (ResourceIDFromString ex (sd_resource_id d)) \<noteq> None \<and>
          job_map s (JobIDFromString ex (td_job_id td)) \<noteq> None)"

text \<open>The job of the delta's task is in state \<open>RUNNING\<close>.\<close>

definition job_is_running :: "ext \<Rightarrow> sched \<Rightarrow> SchedulingDelta \<Rightarrow> bool" where
  "job_is_running ex s d =
     (case task_map s (sd_task_id d) of
        None \<Rightarrow> False
      | Some td \<Rightarrow>
          (case job_map s (JobIDFromString ex (td_job_id td)) of
             None \<Rightarrow> False
           | Some jd \<Rightarrow> jd_state jd = JOB_RUNNING))"

text \<open>A \<open>PLACE\<close> delta with its \<open>actioned\<close> mark set, any other delta as it is.\<close>

definition mark_actioned :: "SchedulingDelta \<Rightarrow> SchedulingDelta" where
  "mark_actioned d = (if sd_type d = PLACE then d\<lparr>sd_actioned := True\<rparr> else d)"

text \<open>
  The calls that one delta gives rise to: for a \<open>PLACE\<close> delta the bind of the task to
  the resource and then the update of the task's arcs, for any other delta none.
\<close>

definition calls_for :: "ext \<Rightarrow> sched \<Rightarrow> SchedulingDelta \<Rightarrow> call list" where
  "calls_for ex s d =
     (if sd_type d = PLACE then
        (case (task_map s (sd_task_id d),
               resource_map s (ResourceIDFromString ex (sd_resource_id d))) of
           (Some td, Some rs) \<Rightarrow>
             [Called_BindTaskToResource td (descriptor rs),
              Called_UpdateArcsForBoundTask (sd_task_id d)
                (ResourceIDFromString ex (sd_resource_id d))]
         | _ \<Rightarrow> [])
      else [])"

text \<open>
  What \<open>ApplySchedulingDeltas\<close> leaves alone: the task and resource tables, and the job
  table but for jobs whose state has become \<open>RUNNING\<close>.
\<close>

definition jobs_only_set_running :: "sched \<Rightarrow> sched \<Rightarrow> bool" where
  "jobs_only_set_running s s' \<longleftrightarrow>
     (\<forall>jid. job_map s' jid = job_map s jid \<or>
            (\<exists>jd. job_map s jid = Some jd \<and>
                  job_map s' jid = Some (jd\<lparr>jd_state := JOB_RUNNING\<rparr>)))"

definition same_tables :: "sched \<Rightarrow> sched \<Rightarrow> bool" where
  "same_tables s s' \<longleftrightarrow>
     task_map s' = task_map s \<and> resource_map s' = resource_map s \<and>
     jobs_only_set_running s s'"

text \<open>The type of the node with the given id, if there is one.\<close>

definition node_type_of :: "sched \<Rightarrow> uint64_t \<Rightarrow> FlowNodeType option" where
  "node_type_of s ident = map_option fgn_type (Node (flow_graph s) ident)"

section \<open>A small cluster to compute with\<close>

text \<open>
  One job with one task, one processing unit, and a flow graph of five nodes: the task
  (a root task), the processing unit, the sink, and two further task nodes, one
  unscheduled and one scheduled. The stand-in dispatcher maps each of the three task
  nodes to the processing unit and proposes \<open>PLACE\<close> for the root task, \<open>PREEMPT\<close> for
  the unscheduled one and \<open>NOOP\<close> for the scheduled one. Identifiers are converted from
  text by taking the length.
\<close>

definition example_task :: TaskDescriptor where
  "example_task = \<lparr>td_uid = 1, td_job_id = ''job-7'', td_state = TASK_OTHER 2\<rparr>"

definition example_job :: JobDescriptor where
  "example_job = \<lparr>jd_uuid = ''job-7'', jd_state = JOB_OTHER 0\<rparr>"

definition example_resource :: ResourceDescriptor where
  "example_resource = \<lparr>rd_uuid = ''pu-0''\<rparr>"

definition example_node ::
  "uint64_t \<Rightarrow> FlowNodeType \<Rightarrow> TaskDescriptor option \<Rightarrow> ResourceDescriptor option \<Rightarrow> FlowGraphNode" where
  "example_node ident t td rd =
     \<lparr>fgn_id = ident, fgn_excess = 0, fgn_type = t, fgn_job_id = 0, fgn_resource_id = 0,
      fgn_rd_ptr = rd, fgn_td_ptr = td, fgn_ec_id = 0, fgn_comment = [],
      fgn_outgoing_arc_map = Map.empty, fgn_incoming_arc_map = Map.empty, fgn_visited = 0\<rparr>"

definition example_graph :: FlowGraph where
  "example_graph =
     \<lparr>fg_cost_model = TrivialCostModel,
      fg_node_map =
        fmupd 1 (example_node 1 ROOT_TASK (Some example_task) None)
       (fmupd 2 (example_node 2 PU None (Some example_resource))
       (fmupd 3 (example_node 3 SINK None None)
       (fmupd 4 (example_node 4 UNSCHEDULED_TASK (Some (example_task\<lparr>td_uid := 9\<rparr>)) None)
       (fmupd 5 (example_node 5 SCHEDULED_TASK (Some (example_task\<lparr>td_uid := 8\<rparr>)) None)
        fmempty))))\<rparr>"

definition example_sched :: sched where
  "example_sched =
     \<lparr>flow_graph = example_graph,
      job_map = [5 \<mapsto> example_job],
      resource_map = [4 \<mapsto> \<lparr>descriptor = example_resource\<rparr>],
      task_map = [1 \<mapsto> example_task],
      task_bindings = Map.empty\<rparr>"

definition example_ext :: ext where
  "example_ext =
     \<lparr>ResourceIDFromString = (\<lambda>str. word_of_nat (length str)),
      JobIDFromString = (\<lambda>str. word_of_nat (length str)),
      BindTaskToResource = (\<lambda>td rd b. b(td_uid td \<mapsto> word_of_nat (length (rd_uuid rd)))),
      UpdateArcsForBoundTask = (\<lambda>t r g. g),
      AddOrUpdateJobNodes = (\<lambda>jd g. g),
      AddResourceTopology = (\<lambda>root g. g),
      FlowGraph_UpdateResourceTopology = (\<lambda>root g. g),
      new_FlowGraph = (\<lambda>cm. \<lparr>fg_cost_model = cm,
                               fg_node_map = fmupd 1 (example_node 1 SINK None None) fmempty\<rparr>),
      RunnableTasksForJob = (\<lambda>jd s. if jd_uuid jd = ''job-7'' then {|1|} else {||}),
      Run = (\<lambda>g. [(1, 2), (4, 2), (5, 2)]),
      NodeBindingToSchedulingDelta = (\<lambda>tn rn b.
        \<lparr>sd_type = (case fgn_type tn of ROOT_TASK \<Rightarrow> PLACE
                     | UNSCHEDULED_TASK \<Rightarrow> PREEMPT | _ \<Rightarrow> NOOP),
         sd_task_id = (case fgn_td_ptr tn of None \<Rightarrow> 0 | Some td \<Rightarrow> td_uid td),
         sd_resource_id = (case fgn_rd_ptr rn of None \<Rightarrow> [] | Some rd \<Rightarrow> rd_uuid rd),
         sd_actioned = False\<rparr>)\<rparr>"

definition example_place :: SchedulingDelta where
  "example_place = \<lparr>sd_type = PLACE, sd_task_id = 1, sd_resource_id = ''pu-0'', sd_actioned = False\<rparr>"

definition example_preempt :: SchedulingDelta where
  "example_preempt = \<lparr>sd_type = PREEMPT, sd_task_id = 9, sd_resource_id = ''pu-0'', sd_actioned = False\<rparr>"

lemmas example_defs =
  example_task_def example_job_def example_resource_def example_node_def
  example_graph_def example_sched_def example_ext_def example_place_def example_preempt_def

section \<open>Node classification\<close>

text \<open>
  C4, refuted as stated. Two nodes of the same type whose task descriptors are in
  different states get different answers from \<open>IsTaskAssignedOrRunning\<close>: the
  predicate reads the task descriptor, not the type.
\<close>

theorem IsTaskAssignedOrRunning_not_by_type:
  "fgn_type (example_node 1 ROOT_TASK (Some (example_task\<lparr>td_state := TASK_RUNNING\<rparr>)) None) =
   fgn_type (example_node 1 ROOT_TASK (Some example_task) None) \<and>
   IsTaskAssignedOrRunning
     (example_node 1 ROOT_TASK (Some (example_task\<lparr>td_state := TASK_RUNNING\<rparr>)) None) = Inr True \<and>
   IsTaskAssignedOrRunning (example_node 1 ROOT_TASK (Some example_task) None) = Inr False"
  by (simp add: IsTaskAssignedOrRunning_def example_node_def example_task_def)

text \<open>
  C4, amended. \<open>IsTaskNode\<close>, \<open>IsResourceNode\<close> and \<open>IsEquivalenceClassNode\<close> are
  functions of the type field: on two nodes with equal types each of them gives the same
  answer, whatever the other fields hold. \<open>IsTaskAssignedOrRunning\<close> is a function of
  the state of the task descriptor that the node points to (and of whether the pointer is
  null): on two nodes that agree there it gives the same outcome, whatever their types.
\<close>

theorem classification_by_type:
  "(fgn_type n1 = fgn_type n2 \<longrightarrow>
      IsTaskNode n1 = IsTaskNode n2 \<and>
      IsResourceNode n1 = IsResourceNode n2 \<and>
      IsEquivalenceClassNode n1 = IsEquivalenceClassNode n2) \<and>
   (map_option td_state (fgn_td_ptr n1) = map_option td_state (fgn_td_ptr n2) \<longrightarrow>
      IsTaskAssignedOrRunning n1 = IsTaskAssignedOrRunning n2)"
  by (auto simp: IsTaskNode_def IsResourceNode_def IsEquivalenceClassNode_def
        IsTaskAssignedOrRunning_def split: option.splits)

theorem classification_by_type_witness:
  "fgn_type (example_node 1 ROOT_TASK (Some example_task) None) =
   fgn_type (example_node 7 ROOT_TASK (Some (example_task\<lparr>td_uid := 9\<rparr>)) (Some example_resource)) \<and>
   IsTaskNode (example_node 1 ROOT_TASK (Some example_task) None) \<and>
   IsTaskNode (example_node 7 ROOT_TASK (Some (example_task\<lparr>td_uid := 9\<rparr>)) (Some example_resource)) \<and>
   IsTaskAssignedOrRunning (example_node 1 ROOT_TASK (Some example_task) None) =
   IsTaskAssignedOrRunning
     (example_node 7 ROOT_TASK (Some (example_task\<lparr>td_uid := 9\<rparr>)) (Some example_resource))"
  using classification_by_type
    [of "example_node 1 ROOT_TASK (Some example_task) None"
        "example_node 7 ROOT_TASK (Some (example_task\<lparr>td_uid := 9\<rparr>)) (Some example_resource)"]
  by (simp add: example_node_def example_task_def IsTaskNode_def)

section \<open>Change records\<close>

text \<open>
  C8. A \<open>CHANGE_ARC\<close> record built from an arc and an old cost has the source,
  destination, lower and upper capacity bound, cost and type of the arc, and the old cost
  it was given.
\<close>

theorem DIMACSChangeArc_fields:
  "chg_src (new_DIMACSChangeArc arc old_cost) = arc_src arc \<and>
   chg_dst (new_DIMACSChangeArc arc old_cost) = arc_dst arc \<and>
   chg_cap_lower_bound (new_DIMACSChangeArc arc old_cost) = arc_cap_lower_bound arc \<and>
   chg_cap_upper_bound (new_DIMACSChangeArc arc old_cost) = arc_cap_upper_bound arc \<and>
   chg_cost (new_DIMACSChangeArc arc old_cost) = arc_cost arc \<and>
   chg_type (new_DIMACSChangeArc arc old_cost) = arc_type arc \<and>
   chg_old_cost (new_DIMACSChangeArc arc old_cost) = old_cost"
  by (simp add: new_DIMACSChangeArc_def)

section \<open>Task identifiers\<close>

text \<open>
  C10. Two task identifiers are equal under \<open>operator==\<close> exactly when their job ids
  and their task indices are equal, and equal identifiers have equal hashes, whatever
  the hash function for \<open>uint64_t\<close> is.
\<close>

theorem TaskIdentifier_eq_and_hash:
  "(TaskIdentifier_eq a b \<longleftrightarrow> job_id a = job_id b \<and> task_index a = task_index b) \<and>
   (TaskIdentifier_eq a b \<longrightarrow> TaskIdentifierHasher hash a = TaskIdentifierHasher hash b)"
  by (simp add: TaskIdentifier_eq_def TaskIdentifierHasher_def)

theorem TaskIdentifier_eq_and_hash_witness:
  "TaskIdentifier_eq \<lparr>job_id = 7, task_index = 3\<rparr> \<lparr>job_id = 7, task_index = 3\<rparr> \<and>
   TaskIdentifierHasher id \<lparr>job_id = 7, task_index = 3\<rparr> = 122 \<and>
   \<not> TaskIdentifier_eq \<lparr>job_id = 7, task_index = 3\<rparr> \<lparr>job_id = 7, task_index = 4\<rparr>"
  using TaskIdentifier_eq_and_hash [of "\<lparr>job_id = 7, task_index = 3\<rparr>" "\<lparr>job_id = 7, task_index = 3\<rparr>" id]
    TaskIdentifier_eq_and_hash [of "\<lparr>job_id = 7, task_index = 3\<rparr>" "\<lparr>job_id = 7, task_index = 4\<rparr>" id]
  by (simp add: TaskIdentifierHasher_def)

section \<open>Construction and topology updates\<close>

text \<open>
  What the constructor does with each value of the flag: the values 0 to 3 select the
  trivial, random, SJF and Quincy cost model, and every other value is fatal.
\<close>

lemma QuincyScheduler_selection:
  "QuincyScheduler ex v jm rm rt tm =
     (if v = 0 \<or> v = 1 \<or> v = 2 \<or> v = 3
      then Inr (UpdateResourceTopology ex rt
                  \<lparr>flow_graph = new_FlowGraph ex
                     (if v = 0 then TrivialCostModel else if v = 1 then RandomCostModel
                      else if v = 2 then SJFCostModel else QuincyCostModel),
                   job_map = jm, resource_map = rm, task_map = tm,
                   task_bindings = Map.empty\<rparr>)
      else Inl LOG_FATAL)"
  by (simp add: QuincyScheduler_def select_cost_model_def)

text \<open>
  C1, where the code departs from it. The numbers of \<open>WHARE\<close> and \<open>COCO\<close>, 4 and 5,
  have no \<open>case\<close> label: with either of them the constructor ends in \<open>LOG(FATAL)\<close>.
\<close>

theorem QuincyScheduler_fatal_for_WHARE_and_COCO:
  "cost_model_number COST_MODEL_WHARE = 4 \<and>
   QuincyScheduler ex 4 jm rm rt tm = Inl LOG_FATAL \<and>
   cost_model_number COST_MODEL_COCO = 5 \<and>
   QuincyScheduler ex 5 jm rm rt tm = Inl LOG_FATAL"
  by (simp add: QuincyScheduler_def select_cost_model_def)

text \<open>
  C5. The topology update adds the topology afresh exactly when the flow graph has one
  node, and updates it incrementally for every other number of nodes.
\<close>

theorem UpdateResourceTopology_initial_iff_one_node:
  "UpdateResourceTopology ex root s =
     (if NumNodes (flow_graph s) = 1
      then (s\<lparr>flow_graph := AddResourceTopology ex root (flow_graph s)\<rparr>,
            [Called_AddResourceTopology root])
      else (s\<lparr>flow_graph := FlowGraph_UpdateResourceTopology ex root (flow_graph s)\<rparr>,
            [Called_UpdateResourceTopology root]))"
  by (simp add: UpdateResourceTopology_def)

theorem UpdateResourceTopology_initial_iff_one_node_witness:
  "NumNodes (new_FlowGraph example_ext TrivialCostModel) = 1 \<and>
   snd (UpdateResourceTopology example_ext (RTND example_resource [])
          (example_sched\<lparr>flow_graph := new_FlowGraph example_ext TrivialCostModel\<rparr>)) =
     [Called_AddResourceTopology (RTND example_resource [])] \<and>
   NumNodes example_graph = 5 \<and>
   snd (UpdateResourceTopology example_ext (RTND example_resource []) example_sched) =
     [Called_UpdateResourceTopology (RTND example_resource [])]"
  using UpdateResourceTopology_initial_iff_one_node
      [of example_ext "RTND example_resource []"
          "example_sched\<lparr>flow_graph := new_FlowGraph example_ext TrivialCostModel\<rparr>"]
    UpdateResourceTopology_initial_iff_one_node
      [of example_ext "RTND example_resource []" example_sched]
  by (simp add: example_defs NumNodes_def fcard_finsert_if)

section \<open>Applying scheduling deltas\<close>

subsection \<open>The loop, one delta at a time\<close>

lemma jobs_only_set_running_refl:
  "jobs_only_set_running s s"
  by (simp add: jobs_only_set_running_def)

lemma jobs_only_set_running_trans:
  assumes "jobs_only_set_running s s1" and "jobs_only_set_running s1 s2"
  shows "jobs_only_set_running s s2"
  unfolding jobs_only_set_running_def
proof
  fix jid
  from assms(1) have a: "job_map s1 jid = job_map s jid \<or>
      (\<exists>jd. job_map s jid = Some jd \<and> job_map s1 jid = Some (jd\<lparr>jd_state := JOB_RUNNING\<rparr>))"
    by (simp add: jobs_only_set_running_def)
  from assms(2) have b: "job_map s2 jid = job_map s1 jid \<or>
      (\<exists>jd. job_map s1 jid = Some jd \<and> job_map s2 jid = Some (jd\<lparr>jd_state := JOB_RUNNING\<rparr>))"
    by (simp add: jobs_only_set_running_def)
  show "job_map s2 jid = job_map s jid \<or>
      (\<exists>jd. job_map s jid = Some jd \<and> job_map s2 jid = Some (jd\<lparr>jd_state := JOB_RUNNING\<rparr>))"
  proof (cases "job_map s1 jid = job_map s jid")
    case True
    with b show ?thesis by simp
  next
    case False
    with a obtain jd where
      jd: "job_map s jid = Some jd" "job_map s1 jid = Some (jd\<lparr>jd_state := JOB_RUNNING\<rparr>)"
      by blast
    with b have "job_map s2 jid = Some (jd\<lparr>jd_state := JOB_RUNNING\<rparr>)"
      by auto
    with jd(1) show ?thesis by simp
  qed
qed

lemma jobs_only_set_running_None:
  "jobs_only_set_running s s' \<Longrightarrow> job_map s' jid = None \<longleftrightarrow> job_map s jid = None"
  unfolding jobs_only_set_running_def by (metis option.distinct(1))

lemma jobs_only_set_running_keeps:
  assumes "jobs_only_set_running s s'" and "job_map s jid = Some jd" and "jd_state jd = JOB_RUNNING"
  shows "job_map s' jid = Some jd"
proof -
  from assms(1) have "job_map s' jid = job_map s jid \<or>
      (\<exists>jd. job_map s jid = Some jd \<and> job_map s' jid = Some (jd\<lparr>jd_state := JOB_RUNNING\<rparr>))"
    by (simp add: jobs_only_set_running_def)
  moreover from assms(3) have "jd\<lparr>jd_state := JOB_RUNNING\<rparr> = jd"
    by simp
  ultimately show ?thesis
    using assms(2) by auto
qed

lemma same_tables_refl:
  "same_tables s s"
  by (simp add: same_tables_def jobs_only_set_running_refl)

lemma same_tables_trans:
  "same_tables s s1 \<Longrightarrow> same_tables s1 s2 \<Longrightarrow> same_tables s s2"
  by (auto simp: same_tables_def intro: jobs_only_set_running_trans)

lemma same_tables_found:
  assumes "same_tables s s'"
  shows "descriptors_found ex s' d = descriptors_found ex s d"
proof -
  from assms have j: "jobs_only_set_running s s'"
    and t: "task_map s' = task_map s" "resource_map s' = resource_map s"
    by (simp_all add: same_tables_def)
  have "\<And>jid. (job_map s' jid = None) = (job_map s jid = None)"
    using j by (rule jobs_only_set_running_None)
  with t show ?thesis
    by (simp add: descriptors_found_def del: not_None_eq split: option.splits)
qed

lemma same_tables_calls:
  "same_tables s s' \<Longrightarrow> calls_for ex s' d = calls_for ex s d"
  by (simp add: same_tables_def calls_for_def)

lemma same_tables_running:
  assumes "same_tables s s'" and "job_is_running ex s d"
  shows "job_is_running ex s' d"
proof -
  from assms(2) obtain td jd where
    td: "task_map s (sd_task_id d) = Some td"
    and jd: "job_map s (JobIDFromString ex (td_job_id td)) = Some jd"
    and r: "jd_state jd = JOB_RUNNING"
    by (auto simp: job_is_running_def split: option.splits)
  from assms(1) have "jobs_only_set_running s s'" and tm: "task_map s' = task_map s"
    by (simp_all add: same_tables_def)
  from jobs_only_set_running_keeps[OF this(1) jd r] td tm r show ?thesis
    by (simp add: job_is_running_def)
qed

lemma body_other:
  "sd_type d \<noteq> PLACE \<Longrightarrow> ApplySchedulingDeltas_body ex d (n, s, cs) = Inr (d, n, s, cs)"
  by (simp add: ApplySchedulingDeltas_body_def)

lemma body_place:
  assumes "sd_type d = PLACE" "descriptors_found ex s d"
  shows "\<exists>s'. ApplySchedulingDeltas_body ex d (n, s, cs) =
            Inr (d\<lparr>sd_actioned := True\<rparr>, n + 1, s', cs @ calls_for ex s d)
          \<and> same_tables s s' \<and> job_is_running ex s' d"
  using assms
  by (auto simp: ApplySchedulingDeltas_body_def descriptors_found_def calls_for_def Let_def
        same_tables_def jobs_only_set_running_def job_is_running_def split: option.splits)

lemma loop_ok:
  assumes "\<forall>d\<in>set ds. sd_type d = PLACE \<longrightarrow> descriptors_found ex s d"
  shows "\<exists>s'. ApplySchedulingDeltas_loop ex ds (n, s, cs) =
            Inr (map mark_actioned ds,
                 n + word_of_nat (length (filter (\<lambda>d. sd_type d = PLACE) ds)),
                 s', cs @ concat (map (calls_for ex s) ds))
          \<and> same_tables s s' \<and> (\<forall>d\<in>set ds. sd_type d = PLACE \<longrightarrow> job_is_running ex s' d)"
  using assms
proof (induction ds arbitrary: n s cs)
  case Nil
  then show ?case by (simp add: same_tables_refl)
next
  case (Cons d ds)
  show ?case
  proof (cases "sd_type d = PLACE")
    case False
    from Cons.prems have "\<forall>d\<in>set ds. sd_type d = PLACE \<longrightarrow> descriptors_found ex s d" by simp
    from Cons.IH[OF this, of n cs] obtain s' where
      "ApplySchedulingDeltas_loop ex ds (n, s, cs) =
            Inr (map mark_actioned ds,
                 n + word_of_nat (length (filter (\<lambda>d. sd_type d = PLACE) ds)),
                 s', cs @ concat (map (calls_for ex s) ds))"
      "same_tables s s'" "\<forall>d\<in>set ds. sd_type d = PLACE \<longrightarrow> job_is_running ex s' d" by blast
    moreover have "calls_for ex s d = []" "mark_actioned d = d"
      using False by (simp_all add: calls_for_def mark_actioned_def)
    ultimately show ?thesis using False
      by (simp add: body_other)
  next
    case True
    with Cons.prems have "descriptors_found ex s d" by simp
    from body_place[OF True this, of n cs] obtain s1 where
      b: "ApplySchedulingDeltas_body ex d (n, s, cs) =
            Inr (d\<lparr>sd_actioned := True\<rparr>, n + 1, s1, cs @ calls_for ex s d)"
      and t1: "same_tables s s1" and r1: "job_is_running ex s1 d" by blast
    from Cons.prems t1 have "\<forall>d\<in>set ds. sd_type d = PLACE \<longrightarrow> descriptors_found ex s1 d"
      by (simp add: same_tables_found)
    from Cons.IH[OF this, of "n + 1" "cs @ calls_for ex s d"] obtain s' where
      l: "ApplySchedulingDeltas_loop ex ds (n + 1, s1, cs @ calls_for ex s d) =
            Inr (map mark_actioned ds,
                 n + 1 + word_of_nat (length (filter (\<lambda>d. sd_type d = PLACE) ds)),
                 s', (cs @ calls_for ex s d) @ concat (map (calls_for ex s1) ds))"
      and t2: "same_tables s1 s'" and r2: "\<forall>d\<in>set ds. sd_type d = PLACE \<longrightarrow> job_is_running ex s' d" by blast
    have c: "map (calls_for ex s1) ds = map (calls_for ex s) ds"
      using t1 by (simp add: same_tables_calls)
    have "ApplySchedulingDeltas_loop ex (d # ds) (n, s, cs) =
            Inr (map mark_actioned (d # ds),
                 n + word_of_nat (length (filter (\<lambda>d. sd_type d = PLACE) (d # ds))),
                 s', cs @ concat (map (calls_for ex s) (d # ds)))"
      using b l c True by (simp add: mark_actioned_def)
    moreover have "same_tables s s'" using t1 t2 by (rule same_tables_trans)
    moreover have "\<forall>x\<in>set (d # ds). sd_type x = PLACE \<longrightarrow> job_is_running ex s' x"
      using r1 r2 t2 by (auto intro: same_tables_running)
    ultimately show ?thesis by blast
  qed
qed

lemma loop_append:
  "ApplySchedulingDeltas_loop ex (xs @ ys) acc =
     (case ApplySchedulingDeltas_loop ex xs acc of
        Inl e \<Rightarrow> Inl e
      | Inr (xs', acc') \<Rightarrow>
          (case ApplySchedulingDeltas_loop ex ys acc' of
             Inl e \<Rightarrow> Inl e
           | Inr (ys', acc'') \<Rightarrow> Inr (xs' @ ys', acc'')))"
  by (induction xs arbitrary: acc) (auto split: sum.splits)

lemma body_missing:
  assumes "sd_type d = PLACE"
    and "task_map s (sd_task_id d) = None \<or>
         resource_map s (ResourceIDFromString ex (sd_resource_id d)) = None"
  shows "ApplySchedulingDeltas_body ex d (n, s, cs) =
           Inl (CHECK_NOTNULL_failed (if task_map s (sd_task_id d) = None then ''td'' else ''rs''))"
  using assms by (auto simp: ApplySchedulingDeltas_body_def split: option.splits)

subsection \<open>The count, the marks, the calls and the job states\<close>

text \<open>
  C2, refuted as stated. A single \<open>PLACE\<close> delta for a task that the task map does not
  know: the method does not return 1, it stops at \<open>CHECK_NOTNULL(td)\<close>.
\<close>

theorem ApplySchedulingDeltas_aborts_on_unknown_task:
  "sd_type (example_place\<lparr>sd_task_id := 2\<rparr>) = PLACE \<and>
   ApplySchedulingDeltas example_ext [example_place\<lparr>sd_task_id := 2\<rparr>] example_sched =
     Inl (CHECK_NOTNULL_failed ''td'')"
  by (simp add: example_defs ApplySchedulingDeltas_def ApplySchedulingDeltas_body_def)

text \<open>
  C2, amended. If every \<open>PLACE\<close> delta of the vector names a task, a resource and
  (through the task) a job that the scheduler's maps know, then \<open>ApplySchedulingDeltas\<close>
  returns, and it returns exactly the number of \<open>PLACE\<close> deltas (as a 64-bit count, which
  is that number whenever the vector has fewer than \<open>2 ^ 64\<close> elements). Exactly the
  \<open>PLACE\<close> deltas come back marked actioned; the calls made are, delta after delta in
  the order of the vector, \<open>BindTaskToResource\<close> on the task and the resource and then
  \<open>UpdateArcsForBoundTask\<close> on their ids, for \<open>PLACE\<close> deltas only; the task and
  resource maps are as before; a job descriptor is either as before or as before with
  its state set to \<open>RUNNING\<close>; and afterwards the job of every placed task is \<open>RUNNING\<close>.
\<close>

theorem ApplySchedulingDeltas_counts_PLACE:
  assumes "\<forall>d\<in>set deltas. sd_type d = PLACE \<longrightarrow> descriptors_found ex s d"
  shows "\<exists>num_scheduled s'.
           ApplySchedulingDeltas ex deltas s =
             Inr (num_scheduled, map mark_actioned deltas, s', concat (map (calls_for ex s) deltas)) \<and>
           num_scheduled = word_of_nat (length (filter (\<lambda>d. sd_type d = PLACE) deltas)) \<and>
           (length deltas < 2 ^ 64 \<longrightarrow>
              unat num_scheduled = length (filter (\<lambda>d. sd_type d = PLACE) deltas)) \<and>
           task_map s' = task_map s \<and> resource_map s' = resource_map s \<and>
           jobs_only_set_running s s' \<and>
           (\<forall>d\<in>set deltas. sd_type d = PLACE \<longrightarrow> job_is_running ex s' d)"
proof -
  let ?k = "length (filter (\<lambda>d. sd_type d = PLACE) deltas)"
  from loop_ok[OF assms, of 0 "[]"] obtain s' where
    l: "ApplySchedulingDeltas_loop ex deltas (0, s, []) =
          Inr (map mark_actioned deltas, word_of_nat ?k, s', concat (map (calls_for ex s) deltas))"
    and t: "same_tables s s'"
    and r: "\<forall>d\<in>set deltas. sd_type d = PLACE \<longrightarrow> job_is_running ex s' d" by auto
  have "?k \<le> length deltas" by simp
  then have "length deltas < 2 ^ 64 \<longrightarrow> ?k < 2 ^ 64" by linarith
  then have "length deltas < 2 ^ 64 \<longrightarrow> unat (word_of_nat ?k :: uint64_t) = ?k"
    by (simp add: unat_of_nat)
  with l r t show ?thesis by (simp add: ApplySchedulingDeltas_def same_tables_def)
qed

theorem ApplySchedulingDeltas_counts_PLACE_witness:
  "\<exists>s'. ApplySchedulingDeltas example_ext [example_place, example_preempt] example_sched =
     Inr (1, [example_place\<lparr>sd_actioned := True\<rparr>, example_preempt], s',
          [Called_BindTaskToResource example_task example_resource,
           Called_UpdateArcsForBoundTask 1 4]) \<and>
     job_is_running example_ext s' example_place"
proof -
  have "\<forall>d\<in>set [example_place, example_preempt].
          sd_type d = PLACE \<longrightarrow> descriptors_found example_ext example_sched d"
    by (simp add: example_defs descriptors_found_def)
  from ApplySchedulingDeltas_counts_PLACE[OF this] show ?thesis
    by (auto simp add: example_defs mark_actioned_def calls_for_def)
qed

subsection \<open>Missing descriptors\<close>

text \<open>
  C6. When the loop reaches a \<open>PLACE\<close> delta (the deltas before it went through) whose
  task descriptor or resource status is not found, the method neither skips the delta nor
  returns: it stops in the \<open>CHECK_NOTNULL\<close> of the pointer that is null, the task's
  first.
\<close>

theorem missing_descriptor_is_fatal:
  assumes "sd_type d = PLACE"
    and "task_map s (sd_task_id d) = None \<or>
         resource_map s (ResourceIDFromString ex (sd_resource_id d)) = None"
    and "\<forall>x\<in>set pre. sd_type x = PLACE \<longrightarrow> descriptors_found ex s x"
  shows "ApplySchedulingDeltas ex (pre @ d # post) s =
           Inl (CHECK_NOTNULL_failed (if task_map s (sd_task_id d) = None then ''td'' else ''rs''))"
proof -
  from loop_ok[OF assms(3), of 0 "[]"] obtain s1 n1 cs1 where
    l: "ApplySchedulingDeltas_loop ex pre (0, s, []) = Inr (map mark_actioned pre, n1, s1, cs1)"
    and t: "same_tables s s1" by blast
  from t assms(2) have m: "task_map s1 (sd_task_id d) = None \<or>
         resource_map s1 (ResourceIDFromString ex (sd_resource_id d)) = None"
    and e: "task_map s1 = task_map s"
    by (simp_all add: same_tables_def)
  have "ApplySchedulingDeltas_loop ex (d # post) (n1, s1, cs1) =
          Inl (CHECK_NOTNULL_failed (if task_map s (sd_task_id d) = None then ''td'' else ''rs''))"
    using body_missing[OF assms(1) m, of n1 cs1] e by simp
  with l show ?thesis
    by (simp add: ApplySchedulingDeltas_def loop_append)
qed

theorem missing_descriptor_is_fatal_witness:
  "ApplySchedulingDeltas example_ext
     ([example_place] @ example_place\<lparr>sd_task_id := 2\<rparr> # [example_preempt]) example_sched =
   Inl (CHECK_NOTNULL_failed ''td'')"
  using missing_descriptor_is_fatal[of "example_place\<lparr>sd_task_id := 2\<rparr>" example_sched example_ext "[example_place]" "[example_preempt]"]
  by (simp add: example_defs descriptors_found_def)

section \<open>A scheduling iteration\<close>

subsection \<open>Collecting the deltas\<close>

lemma collect_append:
  "collect_deltas ex (xs @ ys) s ds =
     (case collect_deltas ex xs s ds of
        Inl e \<Rightarrow> Inl e
      | Inr (s', ds') \<Rightarrow> collect_deltas ex ys s' ds')"
  by (induction xs arbitrary: s ds) (auto simp: Let_def split: option.splits)

lemma node_type_of_set:
  "node_type_of s t = Some SCHEDULED_TASK \<Longrightarrow>
   node_type_of (s\<lparr>flow_graph := set_node_type i SCHEDULED_TASK (flow_graph s)\<rparr>) t = Some SCHEDULED_TASK"
  by (auto simp: node_type_of_def set_node_type_def Node_def split: option.splits)

lemma node_type_of_set_same:
  "Node (flow_graph s) t = Some n \<Longrightarrow>
   node_type_of (s\<lparr>flow_graph := set_node_type t SCHEDULED_TASK (flow_graph s)\<rparr>) t = Some SCHEDULED_TASK"
  by (simp add: node_type_of_def set_node_type_def Node_def)

lemma collect_keeps_scheduled:
  "collect_deltas ex xs s ds = Inr (s', ds') \<Longrightarrow> node_type_of s t = Some SCHEDULED_TASK \<Longrightarrow>
   node_type_of s' t = Some SCHEDULED_TASK"
proof (induction xs arbitrary: s ds)
  case Nil
  then show ?case by simp
next
  case (Cons x xs)
  then show ?case
    by (auto simp: Let_def node_type_of_set split: option.splits if_splits)
qed

lemma collect_deltas_set:
  "collect_deltas ex xs s ds = Inr (s', ds') \<Longrightarrow>
   set ds \<subseteq> set ds' \<and> ((\<forall>d\<in>set ds. sd_type d \<noteq> NOOP) \<longrightarrow> (\<forall>d\<in>set ds'. sd_type d \<noteq> NOOP))"
proof (induction xs arbitrary: s ds)
  case Nil
  then show ?case by simp
next
  case (Cons x xs)
  show ?case
  proof (cases "Node (flow_graph s) (fst x)")
    case None
    with Cons.prems show ?thesis by simp
  next
    case (Some tn)
    note tn = this
    show ?thesis
    proof (cases "Node (flow_graph s) (snd x)")
      case None
      with Cons.prems tn show ?thesis by simp
    next
      case (Some rn)
      let ?d = "NodeBindingToSchedulingDelta ex tn rn (task_bindings s)"
      show ?thesis
      proof (cases "sd_type ?d = NOOP")
        case True
        with Cons.prems tn Some have "collect_deltas ex xs s ds = Inr (s', ds')" by simp
        from Cons.IH[OF this] show ?thesis .
      next
        case False
        with Cons.prems tn Some have
          "collect_deltas ex xs (s\<lparr>flow_graph := set_node_type (fst x) SCHEDULED_TASK (flow_graph s)\<rparr>)
             (ds @ [?d]) = Inr (s', ds')" by simp
        from Cons.IH[OF this] False show ?thesis by auto
      qed
    qed
  qed
qed

subsection \<open>Relabelling happens before the deltas are applied\<close>

text \<open>
  C9. Take any mapping \<open>(t, r)\<close> that the dispatcher returns, at any position, in an
  iteration whose first loop runs to its end, and let \<open>delta\<close> be what the dispatcher
  makes of it when its turn comes. If \<open>delta\<close> is not \<open>NOOP\<close>, whatever else its type is,
  then in the scheduler state that is handed to \<open>ApplySchedulingDeltas\<close> the node \<open>t\<close> has
  type \<open>SCHEDULED_TASK\<close>, and \<open>delta\<close> is among the deltas handed over. No delta handed
  over is \<open>NOOP\<close>. The iteration's outcome is that of \<open>ApplySchedulingDeltas\<close> on these
  deltas and this state, so the relabelling does not wait for a delta to be actioned.
\<close>

theorem non_NOOP_mapping_relabelled:
  assumes run: "Run ex (flow_graph s) = pre @ (t, r) # post"
    and pre: "collect_deltas ex pre s [] = Inr (s0, deltas0)"
    and tn: "Node (flow_graph s0) t = Some task_node"
    and rn: "Node (flow_graph s0) r = Some res_node"
    and delta: "delta = NodeBindingToSchedulingDelta ex task_node res_node (task_bindings s0)"
    and all: "collect_deltas ex (pre @ (t, r) # post) s [] = Inr (s1, deltas)"
  shows "(sd_type delta \<noteq> NOOP \<longrightarrow>
            node_type_of s1 t = Some SCHEDULED_TASK \<and> delta \<in> set deltas) \<and>
         (\<forall>d\<in>set deltas. sd_type d \<noteq> NOOP) \<and>
         RunSchedulingIteration ex s =
           (case ApplySchedulingDeltas ex deltas s1 of
              Inl e \<Rightarrow> Inl e
            | Inr (num_scheduled, deltas', s2, calls) \<Rightarrow>
                Inr (num_scheduled, s2,
                     Called_Run # calls @
                     (if \<exists>d\<in>set deltas'. \<not> sd_actioned d
                      then [Logged_WARNING (length (filter (\<lambda>d. \<not> sd_actioned d) deltas'))]
                      else [])))"
proof -
  have a: "sd_type delta \<noteq> NOOP \<longrightarrow>
            node_type_of s1 t = Some SCHEDULED_TASK \<and> delta \<in> set deltas"
  proof
    assume nn: "sd_type delta \<noteq> NOOP"
    let ?s = "s0\<lparr>flow_graph := set_node_type t SCHEDULED_TASK (flow_graph s0)\<rparr>"
    from all pre tn rn delta nn have rest:
      "collect_deltas ex post ?s (deltas0 @ [delta]) = Inr (s1, deltas)"
      by (simp add: collect_append)
    have "node_type_of ?s t = Some SCHEDULED_TASK"
      using tn by (rule node_type_of_set_same)
    with rest have "node_type_of s1 t = Some SCHEDULED_TASK"
      by (rule collect_keeps_scheduled)
    moreover from collect_deltas_set[OF rest] have "delta \<in> set deltas" by auto
    ultimately show "node_type_of s1 t = Some SCHEDULED_TASK \<and> delta \<in> set deltas" ..
  qed
  have b: "\<forall>d\<in>set deltas. sd_type d \<noteq> NOOP"
    using collect_deltas_set[OF all] by simp
  have "RunSchedulingIteration ex s =
           (case ApplySchedulingDeltas ex deltas s1 of
              Inl e \<Rightarrow> Inl e
            | Inr (num_scheduled, deltas', s2, calls) \<Rightarrow>
                Inr (num_scheduled, s2,
                     Called_Run # calls @
                     (if \<exists>d\<in>set deltas'. \<not> sd_actioned d
                      then [Logged_WARNING (length (filter (\<lambda>d. \<not> sd_actioned d) deltas'))]
                      else [])))"
    using run all by (auto simp: RunSchedulingIteration_def Let_def filter_empty_conv split: sum.splits)
  with a b show ?thesis by blast
qed

theorem non_NOOP_mapping_relabelled_witness:
  "sd_type example_preempt \<noteq> NOOP \<and> sd_type example_preempt \<noteq> PLACE \<and>
   node_type_of example_sched 4 = Some UNSCHEDULED_TASK \<and>
   (\<exists>s1. collect_deltas example_ext (Run example_ext (flow_graph example_sched)) example_sched [] =
            Inr (s1, [example_place, example_preempt]) \<and>
          node_type_of s1 4 = Some SCHEDULED_TASK)"
proof -
  let ?s0 = "example_sched\<lparr>flow_graph := set_node_type 1 SCHEDULED_TASK example_graph\<rparr>"
  let ?s1 = "?s0\<lparr>flow_graph := set_node_type 4 SCHEDULED_TASK (flow_graph ?s0)\<rparr>"
  let ?tn = "example_node 4 UNSCHEDULED_TASK (Some (example_task\<lparr>td_uid := 9\<rparr>)) None"
  let ?rn = "example_node 2 PU None (Some example_resource)"
  have run: "Run example_ext (flow_graph example_sched) = [(1, 2)] @ (4, 2) # [(5, 2)]"
    by (simp add: example_ext_def)
  have pre: "collect_deltas example_ext [(1, 2)] example_sched [] = Inr (?s0, [example_place])"
    by (simp add: example_defs Node_def)
  have tn: "Node (flow_graph ?s0) 4 = Some ?tn"
    by (simp add: example_defs Node_def set_node_type_def)
  have rn: "Node (flow_graph ?s0) 2 = Some ?rn"
    by (simp add: example_defs Node_def set_node_type_def)
  have delta: "example_preempt = NodeBindingToSchedulingDelta example_ext ?tn ?rn (task_bindings ?s0)"
    by (simp add: example_defs)
  have all: "collect_deltas example_ext ([(1, 2)] @ (4, 2) # [(5, 2)]) example_sched [] =
               Inr (?s1, [example_place, example_preempt])"
    by (simp add: example_defs Node_def set_node_type_def)
  have ty: "sd_type example_preempt \<noteq> NOOP" "sd_type example_preempt \<noteq> PLACE"
    by (simp_all add: example_preempt_def)
  have before: "node_type_of example_sched 4 = Some UNSCHEDULED_TASK"
    by (simp add: example_defs node_type_of_def Node_def)
  from non_NOOP_mapping_relabelled[OF run pre tn rn delta all] ty have "node_type_of ?s1 4 = Some SCHEDULED_TASK"
    by blast
  with all run ty before show ?thesis by simp
qed

subsection \<open>Deltas left un-actioned\<close>

text \<open>
  C7. Whenever the deltas are collected and \<open>ApplySchedulingDeltas\<close> returns, the
  iteration returns too, with the very count and scheduler state that
  \<open>ApplySchedulingDeltas\<close> gave. Deltas that came back un-actioned show up in one place
  only: a warning with their number is logged after the calls, and it is logged exactly
  when there is such a delta.
\<close>

theorem unactioned_deltas_keep_count:
  assumes "collect_deltas ex (Run ex (flow_graph s)) s [] = Inr (s1, deltas)"
    and "ApplySchedulingDeltas ex deltas s1 = Inr (num_scheduled, deltas', s2, calls)"
  shows "RunSchedulingIteration ex s =
           Inr (num_scheduled, s2,
                Called_Run # calls @
                (if \<exists>d\<in>set deltas'. \<not> sd_actioned d
                 then [Logged_WARNING (length (filter (\<lambda>d. \<not> sd_actioned d) deltas'))]
                 else []))"
proof -
  have "(0 < length (filter (\<lambda>d. \<not> sd_actioned d) deltas')) = (\<exists>d\<in>set deltas'. \<not> sd_actioned d)"
    by (auto simp: filter_empty_conv)
  with assms show ?thesis
    by (simp add: RunSchedulingIteration_def Let_def)
qed

theorem unactioned_deltas_keep_count_witness:
  "\<exists>s2. RunSchedulingIteration example_ext example_sched =
     Inr (1, s2,
          [Called_Run, Called_BindTaskToResource example_task example_resource,
           Called_UpdateArcsForBoundTask 1 4, Logged_WARNING 1])"
proof -
  let ?s1 = "example_sched\<lparr>flow_graph :=
               set_node_type 4 SCHEDULED_TASK (set_node_type 1 SCHEDULED_TASK example_graph)\<rparr>"
  have c: "collect_deltas example_ext (Run example_ext (flow_graph example_sched)) example_sched [] =
             Inr (?s1, [example_place, example_preempt])"
    by (simp add: example_defs Node_def set_node_type_def)
  obtain s2 where a: "ApplySchedulingDeltas example_ext [example_place, example_preempt] ?s1 =
      Inr (1, [example_place\<lparr>sd_actioned := True\<rparr>, example_preempt], s2,
           [Called_BindTaskToResource example_task example_resource,
            Called_UpdateArcsForBoundTask 1 4])"
    by (simp add: example_defs ApplySchedulingDeltas_def ApplySchedulingDeltas_body_def)
  from unactioned_deltas_keep_count[OF c a] show ?thesis
    by (simp add: example_place_def example_preempt_def)
qed

section \<open>Scheduling a job\<close>

text \<open>
  C3. If the job has no runnable task, \<open>ScheduleJob\<close> returns 0, leaves the scheduler
  as it is and makes no call. Otherwise it calls \<open>AddOrUpdateJobNodes\<close> on the job, runs
  one scheduling iteration on the result, and ends as that iteration ends: with the
  iteration's count and state, the call to \<open>AddOrUpdateJobNodes\<close> before the iteration's
  calls.
\<close>

theorem ScheduleJob_runs_iteration_iff_runnable:
  "ScheduleJob ex job_desc s =
     (if RunnableTasksForJob ex job_desc s = {||} then Inr (0, s, [])
      else (case RunSchedulingIteration ex
                   (s\<lparr>flow_graph := AddOrUpdateJobNodes ex job_desc (flow_graph s)\<rparr>) of
              Inl e \<Rightarrow> Inl e
            | Inr (newly_scheduled, s', calls) \<Rightarrow>
                Inr (newly_scheduled, s', Called_AddOrUpdateJobNodes job_desc # calls)))"
  by (cases "RunnableTasksForJob ex job_desc s = {||}")
    (simp_all add: ScheduleJob_def fcard_fempty)

theorem ScheduleJob_runs_iteration_iff_runnable_witness:
  "ScheduleJob example_ext (example_job\<lparr>jd_uuid := ''job-8''\<rparr>) example_sched =
     Inr (0, example_sched, []) \<and>
   (\<exists>s'. ScheduleJob example_ext example_job example_sched =
     Inr (1, s',
          [Called_AddOrUpdateJobNodes example_job, Called_Run,
           Called_BindTaskToResource example_task example_resource,
           Called_UpdateArcsForBoundTask 1 4, Logged_WARNING 1]))"
  using ScheduleJob_runs_iteration_iff_runnable[of example_ext "example_job\<lparr>jd_uuid := ''job-8''\<rparr>" example_sched]
    ScheduleJob_runs_iteration_iff_runnable[of example_ext example_job example_sched]
  by (simp add: example_defs RunSchedulingIteration_def Node_def set_node_type_def
        ApplySchedulingDeltas_def ApplySchedulingDeltas_body_def)

end
